theory Spec2Isabelle
  imports Main
begin

section \<open>JavaScript strings and the string operations the schemas use\<close>

text \<open>
  A JavaScript string is modelled by the list of its code points (what
  \<^verbatim>\<open>StringToCodePoints\<close> yields). The literals of the source are ASCII; \<open>str\<close>
  embeds such a literal.
\<close>

type_synonym js_string = "nat list"

definition str :: "string \<Rightarrow> js_string" where
  "str s = map of_char s"

text \<open>
  \<^verbatim>\<open>s.length\<close> counts UTF-16 code units: a code point above \<open>0xFFFF\<close> takes two.
\<close>

definition js_length :: "js_string \<Rightarrow> nat" where
  "js_length s = sum_list (map (\<lambda>c. if c < 65536 then 1 else 2) s)"

text \<open>
  \<^verbatim>\<open>val.toUpperCase()\<close> maps every code point through the Unicode upper-case
  mapping and concatenates the results (one code point may become several).
  On ASCII the mapping is written out; the rest of the Unicode table is not
  part of the repository and is the parameter \<open>uc\<close>.
\<close>

definition toUppercase_cp :: "(nat \<Rightarrow> nat list) \<Rightarrow> nat \<Rightarrow> nat list" where
  "toUppercase_cp uc c =
     (if 97 \<le> c \<and> c \<le> 122 then [c - 32] else if c < 128 then [c] else uc c)"

definition toUpperCase :: "(nat \<Rightarrow> nat list) \<Rightarrow> js_string \<Rightarrow> js_string" where
  "toUpperCase uc s = concat (map (toUppercase_cp uc) s)"

subsection \<open>Regular expressions\<close>

text \<open>
  The regular expressions of the source use literals, character classes,
  grouping, alternation, \<^verbatim>\<open>?\<close> and counted repetition only, always between
  \<^verbatim>\<open>^\<close> and \<^verbatim>\<open>$\<close>. \<open>Lit\<close> is a run of literal characters, \<open>Cls\<close> a class given
  by its ranges. Every literal and class of the source is ASCII and takes exactly
  one character, so matching code point by code point accepts the same strings
  as matching code unit by code unit: a code point above \<open>0xFFFF\<close> matches nothing
  here, as its two surrogates match nothing there.
\<close>

datatype regex =
    Lit string
  | Cls "(char \<times> char) list"
  | Seq regex regex
  | Alt regex regex
  | Opt regex
  | Eps

definition in_class :: "(char \<times> char) list \<Rightarrow> nat \<Rightarrow> bool" where
  "in_class rs c = list_ex (\<lambda>(lo, hi). of_char lo \<le> c \<and> c \<le> of_char hi) rs"

text \<open>\<open>rmatch r s\<close> lists what is left of \<open>s\<close> after each way \<open>r\<close> matches a prefix of it.\<close>

fun rmatch :: "regex \<Rightarrow> js_string \<Rightarrow> js_string list" where
  "rmatch (Lit l) s =
     (if take (length l) s = str l then [drop (length l) s] else [])"
| "rmatch (Cls rs) s =
     (case s of [] \<Rightarrow> [] | c # cs \<Rightarrow> if in_class rs c then [cs] else [])"
| "rmatch (Seq a b) s = concat (map (rmatch b) (rmatch a s))"
| "rmatch (Alt a b) s = rmatch a s @ rmatch b s"
| "rmatch (Opt a) s = rmatch a s @ [s]"
| "rmatch Eps s = [s]"

text \<open>\<^verbatim>\<open>r{n}\<close> and \<^verbatim>\<open>r{m,n}\<close>.\<close>

fun rep :: "nat \<Rightarrow> regex \<Rightarrow> regex" where
  "rep 0 r = Eps"
| "rep (Suc n) r = Seq r (rep n r)"



text \<open>\<^verbatim>\<open>/^r$/.test(s)\<close>: some match of \<open>r\<close> uses up all of \<open>s\<close>.\<close>

definition test :: "regex \<Rightarrow> js_string \<Rightarrow> bool" where
  "test r s = ([] \<in> set (rmatch r s))"

abbreviation upper :: "(char \<times> char) list" where
  "upper \<equiv> [(CHR ''A'', CHR ''Z'')]"

abbreviation digit :: "(char \<times> char) list" where
  "digit \<equiv> [(CHR ''0'', CHR ''9'')]"

text \<open>\<^verbatim>\<open>/^[A-Z]{2}[0-9]{4}$/\<close> and \<^verbatim>\<open>/^[0-9]{2}[A-Z]{5}[0-9]{3}$/\<close>.\<close>

definition enrollNo_regex :: regex where
  "enrollNo_regex = Seq (rep 2 (Cls upper)) (rep 4 (Cls digit))"

definition facultyNo_regex :: regex where
  "facultyNo_regex = Seq (rep 2 (Cls digit)) (Seq (rep 5 (Cls upper)) (rep 3 (Cls digit)))"



definition phone_regex_strict :: regex where
  "phone_regex_strict = rep 10 (Cls digit)"

text \<open>
  The semester pattern of the second variant:
  \<^verbatim>\<open>/^(?:(B\.Sc\.\(Hons\.\) Comp\. Appls\.: (I|II|III|IV|V|VI|VII|VIII))|(MCA|M\.Sc\. Cyber Security: (I|II|III|IV)))$/\<close>
  Alternation binds weakest, so the second group reads
  \<^verbatim>\<open>MCA\<close> or \<^verbatim>\<open>M\.Sc\. Cyber Security: (I|II|III|IV)\<close>.
\<close>

definition roman_I_IV :: regex where
  "roman_I_IV = Alt (Lit ''I'') (Alt (Lit ''II'') (Alt (Lit ''III'') (Lit ''IV'')))"

definition roman_I_VIII :: regex where
  "roman_I_VIII =
     Alt (Lit ''I'') (Alt (Lit ''II'') (Alt (Lit ''III'') (Alt (Lit ''IV'')
    (Alt (Lit ''V'') (Alt (Lit ''VI'') (Alt (Lit ''VII'') (Lit ''VIII'')))))))"

definition semester_regex :: regex where
  "semester_regex =
     Alt (Seq (Lit ''B.Sc.(Hons.) Comp. Appls.: '') roman_I_VIII)
         (Alt (Lit ''MCA'')
              (Seq (Lit ''M.Sc. Cyber Security: '') roman_I_IV))"

section \<open>The validation library as the schemas use it\<close>

text \<open>
  An issue is a path into the document and a message. A message given in the
  source is \<open>Message\<close>; where the source gives none, the library's default text
  for the issue code stands.
\<close>

datatype seg = Key string | Idx nat

type_synonym path = "seg list"

datatype zod_code = invalid_type | invalid_enum_value | invalid_string | too_small | custom

datatype message = Message string | Default zod_code

type_synonym issue = "path \<times> message"

text \<open>
  What the repository takes from outside: the Unicode upper-case mapping off
  ASCII, and the library's own tests for dates, e-mail addresses and URLs.
\<close>

record lib =
  unicode_upper :: "nat \<Rightarrow> nat list"
  zod_date :: "js_string \<Rightarrow> bool"
  zod_email :: "js_string \<Rightarrow> bool"
  zod_url :: "js_string \<Rightarrow> bool"

text \<open>
  \<^verbatim>\<open>z.string()\<close> with a chain of checks: every check runs, and each failing one
  adds its issue, in the order of the chain.
\<close>

type_synonym check = "(js_string \<Rightarrow> bool) \<times> message"

definition string_issues :: "check list \<Rightarrow> path \<Rightarrow> js_string \<Rightarrow> issue list" where
  "string_issues cs p v = map (\<lambda>c. (p, snd c)) (filter (\<lambda>c. \<not> fst c v) cs)"

definition zmin :: "nat \<Rightarrow> message \<Rightarrow> check" where
  "zmin n m = (\<lambda>v. n \<le> js_length v, m)"

definition zmax :: "nat \<Rightarrow> message \<Rightarrow> check" where
  "zmax n m = (\<lambda>v. js_length v \<le> n, m)"

definition nonempty :: "message \<Rightarrow> check" where
  "nonempty m = zmin 1 m"

definition zregex :: "regex \<Rightarrow> message \<Rightarrow> check" where
  "zregex r m = (test r, m)"

text \<open>\<^verbatim>\<open>z.enum([...])\<close>: an undefined value and a value off the list both fail.\<close>

definition enum_issues :: "string list \<Rightarrow> path \<Rightarrow> js_string option \<Rightarrow> issue list" where
  "enum_issues vs p v =
     (case v of
        None \<Rightarrow> [(p, Default invalid_type)]
      | Some s \<Rightarrow> if s \<in> set (map str vs) then [] else [(p, Default invalid_enum_value)])"

text \<open>\<^verbatim>\<open>.optional()\<close>: undefined passes, anything else goes to the inner schema.\<close>

definition optional_issues :: "(path \<Rightarrow> 'a \<Rightarrow> issue list) \<Rightarrow> path \<Rightarrow> 'a option \<Rightarrow> issue list" where
  "optional_issues f p v = (case v of None \<Rightarrow> [] | Some x \<Rightarrow> f p x)"

text \<open>\<^verbatim>\<open>z.array(schema)\<close>: every element is parsed, at the path extended by its index.\<close>

definition array_issues :: "(path \<Rightarrow> 'a \<Rightarrow> issue list) \<Rightarrow> path \<Rightarrow> 'a list \<Rightarrow> issue list" where
  "array_issues f p xs = concat (map (\<lambda>(i, x). f (p @ [Idx i]) x) (enumerate 0 xs))"

text \<open>
  \<^verbatim>\<open>z.string().transform(val => val.toUpperCase()).refine(val => re.test(val), msg)\<close>:
  the refinement sees the transformed value, which is also the output.
\<close>

definition upper_refine :: "lib \<Rightarrow> regex \<Rightarrow> string \<Rightarrow> js_string \<Rightarrow> message + js_string" where
  "upper_refine L r m v =
     (let val = toUpperCase (unicode_upper L) v
      in if test r val then Inr val else Inl (Message m))"

definition upper_refine_issues :: "lib \<Rightarrow> regex \<Rightarrow> string \<Rightarrow> path \<Rightarrow> js_string \<Rightarrow> issue list" where
  "upper_refine_issues L r m p v =
     (case upper_refine L r m v of Inl e \<Rightarrow> [(p, e)] | Inr val \<Rightarrow> [])"

section \<open>The data model\<close>

text \<open>
  The entries of the four repeatable sections and the profile document. The two
  variants of the form differ in the type of the profile picture, of
  \<^verbatim>\<open>technologiesUsed\<close> and of an achievement, which are type parameters here.
  \<^verbatim>\<open>progLangSchema\<close> and \<^verbatim>\<open>skillsSchema\<close> both describe an object with a name and
  a fluency. A text field holds the string of its input (the second form gives
  \<^verbatim>\<open>dob\<close> and \<^verbatim>\<open>address\<close> no default value; they are strings here all the same);
  \<^verbatim>\<open>course\<close> and the picture are undefined until chosen. The key \<^verbatim>\<open>name\<close> of an entry is the field
  \<open>rated_name\<close> or \<open>achievement_name\<close>, since \<open>name\<close> is the document's.
\<close>

record js_file =
  file_size :: nat
  file_type :: js_string

record rated =
  rated_name :: js_string
  fluency :: js_string

record 'tech project =
  projectName :: js_string
  projectDescription :: js_string
  technologiesUsed :: 'tech
  projectLink :: "js_string option"
  projectDuration :: js_string

record achievement =
  achievement_name :: js_string

record ('pic, 'tech, 'ach) form_values =
  profilePicture :: "'pic option"
  name :: js_string
  title :: js_string
  about :: js_string
  dob :: js_string
  address :: js_string
  enrollNo :: js_string
  facultyNo :: js_string
  course :: "js_string option"
  semester :: js_string
  progLangs :: "rated list"
  skills :: "rated list"
  projects :: "'tech project list"
  achievements :: "'ach list"
  email :: js_string
  phone :: js_string
  github :: js_string
  linkedin :: js_string

section \<open>The schemas of the first variant (\<^verbatim>\<open>src/unnamed/part_000\<close>)\<close>

definition FluencyEnum :: "string list" where
  "FluencyEnum = [''Beginner'', ''Intermediate'', ''Advanced'', ''Expert'']"


definition progLangSchema :: "path \<Rightarrow> rated \<Rightarrow> issue list" where
  "progLangSchema p e =
     string_issues [nonempty (Default too_small)] (p @ [Key ''name'']) (rated_name e)
   @ enum_issues FluencyEnum (p @ [Key ''fluency'']) (Some (fluency e))"

definition skillsSchema :: "path \<Rightarrow> rated \<Rightarrow> issue list" where
  "skillsSchema p e =
     string_issues [] (p @ [Key ''name'']) (rated_name e)
   @ enum_issues FluencyEnum (p @ [Key ''fluency'']) (Some (fluency e))"

text \<open>
  \<^verbatim>\<open>technologiesUsed\<close> is \<^verbatim>\<open>z.string()\<close> in the first variant and
  \<^verbatim>\<open>z.array(z.string())\<close> in the second: no check on a value of its type in either.
\<close>

definition projectSchema :: "lib \<Rightarrow> path \<Rightarrow> 'tech project \<Rightarrow> issue list" where
  "projectSchema L p e =
     string_issues [zmin 2 (Message ''Project name must be at least 2 characters.'')]
       (p @ [Key ''projectName'']) (projectName e)
   @ string_issues [zmin 10 (Message ''Project description must be at least 10 characters.'')]
       (p @ [Key ''projectDescription'']) (projectDescription e)
   @ optional_issues (string_issues [(zod_url L, Default invalid_string)])
       (p @ [Key ''projectLink'']) (projectLink e)
   @ string_issues [zmin 2 (Message ''Project duration must be at least 2 characters.'')]
       (p @ [Key ''projectDuration'']) (projectDuration e)"

definition achievementSchema :: "path \<Rightarrow> achievement \<Rightarrow> issue list" where
  "achievementSchema p e =
     string_issues [nonempty (Message ''This field is required'')]
       (p @ [Key ''name'']) (achievement_name e)"








section \<open>The schemas of the second variant (\<^verbatim>\<open>src/src/components/StudentPortfolioForm.tsx\<close>)\<close>

text \<open>
  \<^verbatim>\<open>profilePictureSchema\<close>, lines 66 to 84, is an object schema with the one key
  \<^verbatim>\<open>profilePicture\<close>. The value under that key is a \<^verbatim>\<open>FileList\<close> or something
  else; \<^verbatim>\<open>z.custom\<close> stops the chain when it is not a \<^verbatim>\<open>FileList\<close>, the three
  refinements all run otherwise. \<^verbatim>\<open>files[0]?.size\<close> and \<^verbatim>\<open>files[0]?.type\<close> are
  undefined on an empty list, which fails both tests.
\<close>

datatype upload = Not_FileList | FileList "js_file list"

text \<open>
  The object that the schema parses is either an object that has the key
  \<^verbatim>\<open>profilePicture\<close>, or the \<^verbatim>\<open>FileList\<close> that the file input of the form stores
  (line 345, \<^verbatim>\<open>field.onChange(e.target.files)\<close>). A \<^verbatim>\<open>FileList\<close> is an object
  without that key: reading the key from it gives undefined.
\<close>

datatype picture = Picture_object upload | Picture_FileList "js_file list"

definition picture_profilePicture :: "picture \<Rightarrow> upload" where
  "picture_profilePicture obj =
     (case obj of Picture_object v \<Rightarrow> v | Picture_FileList files \<Rightarrow> Not_FileList)"

definition maxSize :: nat where
  "maxSize = 2 * 1024 * 1024"

definition fileFormat :: "string list" where
  "fileFormat = [''image/jpeg'', ''image/png'']"

definition profilePictureSchema :: "path \<Rightarrow> picture \<Rightarrow> issue list" where
  "profilePictureSchema p obj =
     (let q = p @ [Key ''profilePicture'']
      in case picture_profilePicture obj of
           Not_FileList \<Rightarrow> [(q, Message ''Please upload a file.'')]
         | FileList files \<Rightarrow>
             (if length files > 0 then []
              else [(q, Message ''Profile picture is required.'')])
           @ (if (case files of [] \<Rightarrow> False | f # fs \<Rightarrow> file_size f \<le> maxSize) then []
              else [(q, Message ''File size must be less than 2MB.'')])
           @ (if (case files of [] \<Rightarrow> False | f # fs \<Rightarrow> file_type f \<in> set (map str fileFormat))
              then []
              else [(q, Message ''Invalid file type. Only JPEG and PNG are allowed.'')]))"

text \<open>
  \<^verbatim>\<open>course\<close>, lines 105 to 114: the enum with the placeholder, then the refinement
  that rejects the placeholder; the refinement runs only on a value of the enum.
\<close>

definition course_strict_issues :: "path \<Rightarrow> js_string option \<Rightarrow> issue list" where
  "course_strict_issues p v =
     (case enum_issues [''SELECT'', ''B.Sc.(Hons.) Comp. Appls.'', ''MCA'', ''M.Sc. Cyber Security''] p v of
        [] \<Rightarrow> if v = Some (str ''SELECT'')
              then [(p, Message ''You must select a valid course'')] else []
      | i # is \<Rightarrow> i # is)"

text \<open>\<^verbatim>\<open>semester\<close>, lines 115 to 121.\<close>

definition semester_strict_issues :: "path \<Rightarrow> js_string \<Rightarrow> issue list" where
  "semester_strict_issues p v =
     string_issues [zregex semester_regex (Message ''Invalid semester for the selected course''),
                    nonempty (Message ''Semester is Required'')] p v"

text \<open>\<^verbatim>\<open>enrollNo\<close> and \<^verbatim>\<open>facultyNo\<close>, lines 97 to 104: the pattern on the value as entered.\<close>

definition enrollNo_strict_issues :: "path \<Rightarrow> js_string \<Rightarrow> issue list" where
  "enrollNo_strict_issues p v =
     string_issues [zregex enrollNo_regex (Message ''Invalid Enrollment number''),
                    nonempty (Message ''This field is required'')] p v"

definition facultyNo_strict_issues :: "path \<Rightarrow> js_string \<Rightarrow> issue list" where
  "facultyNo_strict_issues p v =
     string_issues [zregex facultyNo_regex (Message ''Invalid Faculty number''),
                    nonempty (Message ''This field is required'')] p v"

type_synonym FormData_strict = "(picture, js_string list, js_string) form_values"

definition achievement_strict_issues :: "path \<Rightarrow> js_string \<Rightarrow> issue list" where
  "achievement_strict_issues p v =
     string_issues [zmax 50 (Message ''Not more than 50 characters''),
                    nonempty (Message ''This field is required'')] p v"

text \<open>\<^verbatim>\<open>FormSchema\<close> of the second variant, lines 87 to 138.\<close>

definition FormSchema_strict_issues :: "lib \<Rightarrow> FormData_strict \<Rightarrow> issue list" where
  "FormSchema_strict_issues L d =
     (case profilePicture d of
        None \<Rightarrow> [([Key ''profilePicture''], Default invalid_type)]
      | Some obj \<Rightarrow> profilePictureSchema [Key ''profilePicture''] obj)
   @ string_issues [nonempty (Message ''This field is required'')] [Key ''name''] (name d)
   @ string_issues [nonempty (Message ''This field is required'')] [Key ''title''] (title d)
   @ string_issues [zmax 200 (Message ''Not more than 200 characters''),
                    nonempty (Message ''This field is required'')] [Key ''about''] (about d)
   @ string_issues [(zod_date L, Message ''Invalid date''),
                    nonempty (Message ''This field is required'')] [Key ''dob''] (dob d)
   @ string_issues [nonempty (Message ''This field is required'')] [Key ''address''] (address d)
   @ enrollNo_strict_issues [Key ''enrollNo''] (enrollNo d)
   @ facultyNo_strict_issues [Key ''facultyNo''] (facultyNo d)
   @ course_strict_issues [Key ''course''] (course d)
   @ semester_strict_issues [Key ''semester''] (semester d)
   @ array_issues progLangSchema [Key ''progLangs''] (progLangs d)
   @ array_issues skillsSchema [Key ''skills''] (skills d)
   @ array_issues (projectSchema L) [Key ''projects''] (projects d)
   @ array_issues achievement_strict_issues [Key ''achievements''] (achievements d)
   @ string_issues [(zod_email L, Default invalid_string),
                    nonempty (Message ''This field is required'')] [Key ''email''] (email d)
   @ string_issues [zregex phone_regex_strict (Default invalid_string),
                    nonempty (Message ''This field is required'')] [Key ''phone''] (phone d)
   @ string_issues [(zod_url L, Default invalid_string)] [Key ''github''] (github d)
   @ string_issues [(zod_url L, Default invalid_string)] [Key ''linkedin''] (linkedin d)"

text \<open>
  The file input of the second variant, lines 336 to 354: choosing files stores
  the input's \<^verbatim>\<open>FileList\<close> as the value of \<^verbatim>\<open>profilePicture\<close>.
\<close>

definition profilePicture_onChange :: "js_file list \<Rightarrow> FormData_strict \<Rightarrow> FormData_strict" where
  "profilePicture_onChange files d = d\<lparr>profilePicture := Some (Picture_FileList files)\<rparr>"

text \<open>The issues that full-document validation reports for one field.\<close>

definition issues_at :: "path \<Rightarrow> issue list \<Rightarrow> issue list" where
  "issues_at p is = filter (\<lambda>i. fst i = p) is"

section \<open>The login page (\<^verbatim>\<open>src/unnamed/part_001\<close>)\<close>

record login_values =
  login_email :: js_string
  password :: js_string

text \<open>\<^verbatim>\<open>formSchema\<close>, lines 21 to 27; the record field \<open>login_email\<close> is the key \<^verbatim>\<open>email\<close>.\<close>

definition formSchema_issues :: "lib \<Rightarrow> login_values \<Rightarrow> issue list" where
  "formSchema_issues L v =
     upper_refine_issues L enrollNo_regex ''Invalid Enrollment number'' [Key ''email''] (login_email v)
   @ string_issues [zmin 6 (Message ''Password must be atleast of 6 characters'')]
       [Key ''password''] (password v)"

definition formSchema_parse :: "lib \<Rightarrow> login_values \<Rightarrow> issue list + login_values" where
  "formSchema_parse L v =
     (if formSchema_issues L v = []
      then Inr (v\<lparr>login_email := toUpperCase (unicode_upper L) (login_email v)\<rparr>)
      else Inl (formSchema_issues L v))"

text \<open>
  The network is the environment: a request ends in a network error or in a
  response with a status. \<^verbatim>\<open>axios.post\<close> resolves on a status from 200 to 299
  (its default \<^verbatim>\<open>validateStatus\<close>) and rejects otherwise.
\<close>

datatype 'r http_outcome = Network_error | Http_response nat 'r

datatype 'r settled = Resolved 'r | Rejected

definition validateStatus :: "nat \<Rightarrow> bool" where
  "validateStatus status = (200 \<le> status \<and> status < 300)"

definition axios_post :: "'r http_outcome \<Rightarrow> 'r settled" where
  "axios_post outcome =
     (case outcome of
        Network_error \<Rightarrow> Rejected
      | Http_response status body \<Rightarrow> if validateStatus status then Resolved body else Rejected)"

text \<open>\<^verbatim>\<open>onSubmit\<close>, lines 43 to 56, as the list of its effects in order.\<close>

datatype 'r effect =
    Post string login_values bool
  | Log_response 'r
  | Log_data login_values
  | Log_error
  | Navigate string
  | Alert string

definition onSubmit :: "'r http_outcome \<Rightarrow> login_values \<Rightarrow> 'r effect list" where
  "onSubmit outcome data =
     Post ''http://localhost:3000/api/v1/users/login'' data True
     # (case axios_post outcome of
          Resolved body \<Rightarrow> [Log_response body, Navigate ''/'', Alert ''Login successful'']
        | Rejected \<Rightarrow> [Alert ''Invalid credentials or something went wrong'', Log_error])
     @ [Log_data data]"

text \<open>
  \<^verbatim>\<open>form.handleSubmit(onSubmit)\<close> of the login form: the errors shown and the
  effects performed.
\<close>

definition login_handleSubmit ::
  "lib \<Rightarrow> 'r http_outcome \<Rightarrow> login_values \<Rightarrow> (path \<rightharpoonup> message) \<times> 'r effect list" where
  "login_handleSubmit L outcome v =
     (case formSchema_parse L v of
        Inl issues \<Rightarrow> (map_of issues, [])
      | Inr data \<Rightarrow> (Map.empty, onSubmit outcome data))"

definition is_Post :: "'r effect \<Rightarrow> bool" where
  "is_Post e = (case e of Post u b c \<Rightarrow> True | _ \<Rightarrow> False)"

definition is_Navigate :: "'r effect \<Rightarrow> bool" where
  "is_Navigate e = (case e of Navigate u \<Rightarrow> True | _ \<Rightarrow> False)"

section \<open>Sub-list managers\<close>

text \<open>
  The operations of a sub-list manager are those of \<^verbatim>\<open>useFieldArray\<close>, which
  belongs to the form library and is not in the repository. A sub-list is an
  ordered sequence of rows; a row is an entry together with the key that
  identifies it, which it gets when it is appended.
\<close>

datatype manager_error = Index_out_of_range

text \<open>
  Modelled from the spec: \<^verbatim>\<open>append\<close> of \<^verbatim>\<open>useFieldArray\<close>, missing from the
  sources. It inserts the entry at the end, with its key.
\<close>

definition append_row :: "'k \<Rightarrow> 'e \<Rightarrow> ('k \<times> 'e) list \<Rightarrow> ('k \<times> 'e) list" where
  "append_row k e rows = rows @ [(k, e)]"

text \<open>
  Modelled from the spec: \<^verbatim>\<open>remove\<close> of \<^verbatim>\<open>useFieldArray\<close>, missing from the
  sources. It deletes the row at the index and re-indexes the rows after it;
  an index out of range is a programming error.
\<close>

definition removeAt :: "nat \<Rightarrow> ('k \<times> 'e) list \<Rightarrow> manager_error + ('k \<times> 'e) list" where
  "removeAt i rows =
     (if i < length rows then Inr (take i rows @ drop (Suc i) rows)
      else Inl Index_out_of_range)"

text \<open>
  \<^verbatim>\<open>useFieldArray({ control: form.control, name })\<close>: the manager works on the
  sequence that the form holds under \<open>name\<close>.
\<close>

type_synonym ('k, 'e) field_arrays = "string \<Rightarrow> ('k \<times> 'e) list"

definition useFieldArray_append ::
  "string \<Rightarrow> 'k \<Rightarrow> 'e \<Rightarrow> ('k, 'e) field_arrays \<Rightarrow> ('k, 'e) field_arrays" where
  "useFieldArray_append nm k e st = st(nm := append_row k e (st nm))"

definition useFieldArray_remove ::
  "string \<Rightarrow> nat \<Rightarrow> ('k, 'e) field_arrays \<Rightarrow> manager_error + ('k, 'e) field_arrays" where
  "useFieldArray_remove nm i st =
     (case removeAt i (st nm) of
        Inl err \<Rightarrow> Inl err
      | Inr rows \<Rightarrow> Inr (st(nm := rows)))"

text \<open>The managers of the first variant, \<^verbatim>\<open>src/unnamed/part_000\<close> lines 143 to 175.\<close>

definition appendLanguage :: "'k \<Rightarrow> 'e \<Rightarrow> ('k, 'e) field_arrays \<Rightarrow> ('k, 'e) field_arrays" where
  "appendLanguage = useFieldArray_append ''progLangs''"

definition removeLanguage :: "nat \<Rightarrow> ('k, 'e) field_arrays \<Rightarrow> manager_error + ('k, 'e) field_arrays" where
  "removeLanguage = useFieldArray_remove ''progLangs''"

definition appendProject :: "'k \<Rightarrow> 'e \<Rightarrow> ('k, 'e) field_arrays \<Rightarrow> ('k, 'e) field_arrays" where
  "appendProject = useFieldArray_append ''projects''"

definition removeProject :: "nat \<Rightarrow> ('k, 'e) field_arrays \<Rightarrow> manager_error + ('k, 'e) field_arrays" where
  "removeProject = useFieldArray_remove ''projects''"

definition appendsSkill :: "'k \<Rightarrow> 'e \<Rightarrow> ('k, 'e) field_arrays \<Rightarrow> ('k, 'e) field_arrays" where
  "appendsSkill = useFieldArray_append ''skills''"

definition removeSkill :: "nat \<Rightarrow> ('k, 'e) field_arrays \<Rightarrow> manager_error + ('k, 'e) field_arrays" where
  "removeSkill = useFieldArray_remove ''skills''"

definition appendAchievement :: "'k \<Rightarrow> 'e \<Rightarrow> ('k, 'e) field_arrays \<Rightarrow> ('k, 'e) field_arrays" where
  "appendAchievement = useFieldArray_append ''achievements''"

definition removeAchievement :: "nat \<Rightarrow> ('k, 'e) field_arrays \<Rightarrow> manager_error + ('k, 'e) field_arrays" where
  "removeAchievement = useFieldArray_remove ''achievements''"

text \<open>
  The managers of the second variant, \<^verbatim>\<open>StudentPortfolioForm.tsx\<close> lines 165 to
  204, with the names they are given there.
\<close>

definition appendLanguage_strict :: "'k \<Rightarrow> 'e \<Rightarrow> ('k, 'e) field_arrays \<Rightarrow> ('k, 'e) field_arrays" where
  "appendLanguage_strict = useFieldArray_append ''progLangs''"

definition removeLanguage_strict :: "nat \<Rightarrow> ('k, 'e) field_arrays \<Rightarrow> manager_error + ('k, 'e) field_arrays" where
  "removeLanguage_strict = useFieldArray_remove ''progLangs''"

definition appendProject_strict :: "'k \<Rightarrow> 'e \<Rightarrow> ('k, 'e) field_arrays \<Rightarrow> ('k, 'e) field_arrays" where
  "appendProject_strict = useFieldArray_append ''project''"

definition removeProject_strict :: "nat \<Rightarrow> ('k, 'e) field_arrays \<Rightarrow> manager_error + ('k, 'e) field_arrays" where
  "removeProject_strict = useFieldArray_remove ''project''"

definition appendsSkill_strict :: "'k \<Rightarrow> 'e \<Rightarrow> ('k, 'e) field_arrays \<Rightarrow> ('k, 'e) field_arrays" where
  "appendsSkill_strict = useFieldArray_append ''progLangs''"

definition removeSkill_strict :: "nat \<Rightarrow> ('k, 'e) field_arrays \<Rightarrow> manager_error + ('k, 'e) field_arrays" where
  "removeSkill_strict = useFieldArray_remove ''progLangs''"

definition appendTech_strict :: "'k \<Rightarrow> 'e \<Rightarrow> ('k, 'e) field_arrays \<Rightarrow> ('k, 'e) field_arrays" where
  "appendTech_strict = useFieldArray_append ''progLangs''"

definition removeTech_strict :: "nat \<Rightarrow> ('k, 'e) field_arrays \<Rightarrow> manager_error + ('k, 'e) field_arrays" where
  "removeTech_strict = useFieldArray_remove ''progLangs''"

definition appendAchievement_strict :: "'k \<Rightarrow> 'e \<Rightarrow> ('k, 'e) field_arrays \<Rightarrow> ('k, 'e) field_arrays" where
  "appendAchievement_strict = useFieldArray_append ''progLangs''"

definition removeAchievement_strict :: "nat \<Rightarrow> ('k, 'e) field_arrays \<Rightarrow> manager_error + ('k, 'e) field_arrays" where
  "removeAchievement_strict = useFieldArray_remove ''progLangs''"


section \<open>Sample inputs\<close>

text \<open>
  A stand-in for the outside tests (one date, one address and one URL pass) and
  documents to evaluate the definitions on.
\<close>

definition plain_lib :: lib where
  "plain_lib =
     \<lparr>unicode_upper = (\<lambda>c. [c]), zod_date = (\<lambda>s. s = str ''2004-05-17''),
      zod_email = (\<lambda>s. s = str ''a@b.co''), zod_url = (\<lambda>s. s = str ''https://x.y'')\<rparr>"


definition sample_login :: login_values where
  "sample_login = \<lparr>login_email = str ''a@b.co'', password = str ''secret1''\<rparr>"

definition sample_login_lower :: login_values where
  "sample_login_lower = \<lparr>login_email = str ''ab1234'', password = str ''secret1''\<rparr>"

definition jpeg_3MB :: js_file where
  "jpeg_3MB = \<lparr>file_size = 3 * 1024 * 1024, file_type = str ''image/jpeg''\<rparr>"

definition png_1MB :: js_file where
  "png_1MB = \<lparr>file_size = 1024 * 1024, file_type = str ''image/png''\<rparr>"

definition gif_1MB :: js_file where
  "gif_1MB = \<lparr>file_size = 1024 * 1024, file_type = str ''image/gif''\<rparr>"

definition default_skill :: rated where
  "default_skill = \<lparr>rated_name = [], fluency = str ''Beginner''\<rparr>"

section \<open>Strings and patterns\<close>

lemma str_nonempty: "str (c # cs) \<noteq> []"
  by (simp add: str_def)

lemma js_length_Nil [simp]: "js_length [] = 0"
  by (simp add: js_length_def)

lemma js_length_0 [simp]: "js_length s = 0 \<longleftrightarrow> s = []"
  by (cases s) (auto simp: js_length_def)

lemma js_length_str [simp]: "js_length (str s) = length s"
proof -
  have "(of_char c :: nat) < 65536" for c
    using nat_of_char_less_256 [of c] by (simp del: nat_of_char_less_256)
  then show ?thesis by (induction s) (simp_all add: js_length_def str_def)
qed

lemma in_class_upper: "in_class upper c \<longleftrightarrow> 65 \<le> c \<and> c \<le> 90"
  by (simp add: in_class_def)

lemma in_class_digit: "in_class digit c \<longleftrightarrow> 48 \<le> c \<and> c \<le> 57"
  by (simp add: in_class_def)

text \<open>The two patterns, spelled out: two capitals and four digits; two digits, five capitals and three digits.\<close>

lemma test_enrollNo_regex:
  "test enrollNo_regex v \<longleftrightarrow>
     (\<exists>a b c d e f. v = [a, b, c, d, e, f] \<and> in_class upper a \<and> in_class upper b
        \<and> in_class digit c \<and> in_class digit d \<and> in_class digit e \<and> in_class digit f)"
  by (auto simp: test_def enrollNo_regex_def numeral_eq_Suc split: list.splits if_splits)

lemma test_facultyNo_regex:
  "test facultyNo_regex v \<longleftrightarrow>
     (\<exists>a b c d e f g h i j. v = [a, b, c, d, e, f, g, h, i, j]
        \<and> in_class digit a \<and> in_class digit b
        \<and> in_class upper c \<and> in_class upper d \<and> in_class upper e
        \<and> in_class upper f \<and> in_class upper g
        \<and> in_class digit h \<and> in_class digit i \<and> in_class digit j)"
  by (auto simp: test_def facultyNo_regex_def numeral_eq_Suc split: list.splits if_splits)

lemma enrollNo_chars:
  "test enrollNo_regex v \<Longrightarrow> \<forall>c \<in> set v. (48 \<le> c \<and> c \<le> 57) \<or> (65 \<le> c \<and> c \<le> 90)"
  by (auto simp: test_enrollNo_regex in_class_upper in_class_digit)

lemma facultyNo_chars:
  "test facultyNo_regex v \<Longrightarrow> \<forall>c \<in> set v. (48 \<le> c \<and> c \<le> 57) \<or> (65 \<le> c \<and> c \<le> 90)"
  by (auto simp: test_facultyNo_regex in_class_upper in_class_digit)

text \<open>Upper-casing leaves a string without lower-case ASCII letters and without characters off ASCII alone.\<close>

lemma toUpperCase_below_a: "\<forall>c \<in> set v. c < 97 \<Longrightarrow> toUpperCase uc v = v"
  by (induction v) (auto simp: toUpperCase_def toUppercase_cp_def)

lemma enrollNo_uppercase: "test enrollNo_regex v \<Longrightarrow> toUpperCase uc v = v"
  by (rule toUpperCase_below_a) (use enrollNo_chars in fastforce)

lemma facultyNo_uppercase: "test facultyNo_regex v \<Longrightarrow> toUpperCase uc v = v"
  by (rule toUpperCase_below_a) (use facultyNo_chars in fastforce)

lemma at_kept: "64 \<in> set s \<Longrightarrow> 64 \<in> set (toUpperCase uc s)"
  by (induction s) (auto simp: toUpperCase_def toUppercase_cp_def)

section \<open>Checks and paths\<close>

lemma string_issues_simps:
  "string_issues [] p v = []"
  "string_issues (c # cs) p v = (if fst c v then [] else [(p, snd c)]) @ string_issues cs p v"
  by (simp_all add: string_issues_def)

lemma nonempty_check [simp]: "fst (nonempty m) v \<longleftrightarrow> v \<noteq> []" "snd (nonempty m) = m"
  using js_length_0 [of v] by (auto simp: nonempty_def zmin_def Suc_le_eq simp del: js_length_0)

lemma zmin_check [simp]: "fst (zmin n m) v \<longleftrightarrow> n \<le> js_length v" "snd (zmin n m) = m"
  by (auto simp: zmin_def)

lemma zmax_check [simp]: "fst (zmax n m) v \<longleftrightarrow> js_length v \<le> n" "snd (zmax n m) = m"
  by (auto simp: zmax_def)

lemma zregex_check [simp]: "fst (zregex r m) v \<longleftrightarrow> test r v" "snd (zregex r m) = m"
  by (auto simp: zregex_def)

lemma issues_at_append [simp]: "issues_at p (a @ b) = issues_at p a @ issues_at p b"
  by (simp add: issues_at_def)

lemma issues_at_Nil [simp]: "issues_at p [] = []"
  by (simp add: issues_at_def)

lemma issues_at_none: "\<forall>i \<in> set is. fst i \<noteq> q \<Longrightarrow> issues_at q is = []"
  by (induction "is") (auto simp: issues_at_def)

lemma issues_at_all: "\<forall>i \<in> set is. fst i = q \<Longrightarrow> issues_at q is = is"
  by (induction "is") (auto simp: issues_at_def)

lemma string_issues_path: "i \<in> set (string_issues cs p v) \<Longrightarrow> fst i = p"
  by (auto simp: string_issues_def)

lemma enum_issues_path: "i \<in> set (enum_issues vs p v) \<Longrightarrow> fst i = p"
  by (auto simp: enum_issues_def split: option.splits if_splits)

lemma course_strict_issues_path: "i \<in> set (course_strict_issues p v) \<Longrightarrow> fst i = p"
  by (auto simp: course_strict_issues_def enum_issues_def split: option.splits if_splits list.splits)

lemma upper_refine_issues_path: "i \<in> set (upper_refine_issues L r m p v) \<Longrightarrow> fst i = p"
  by (auto simp: upper_refine_issues_def split: sum.splits)

lemma profilePictureSchema_path:
  "i \<in> set (profilePictureSchema p obj) \<Longrightarrow> fst i = p @ [Key ''profilePicture'']"
  by (auto simp: profilePictureSchema_def Let_def split: upload.splits if_splits)

text \<open>The issues of an array lie under an index below the array's path.\<close>

lemma array_issues_prefix:
  assumes "\<And>q x i. i \<in> set (f q x) \<Longrightarrow> \<exists>r. fst i = q @ r"
    and "i \<in> set (array_issues f p xs)"
  shows "\<exists>n r. fst i = p @ Idx n # r"
proof -
  from assms(2) obtain n x where "i \<in> set (f (p @ [Idx n]) x)"
    by (auto simp: array_issues_def)
  from assms(1) [OF this] show ?thesis by auto
qed

lemma progLangSchema_prefix: "i \<in> set (progLangSchema q x) \<Longrightarrow> \<exists>r. fst i = q @ r"
  by (auto simp: progLangSchema_def dest!: string_issues_path enum_issues_path)

lemma skillsSchema_prefix: "i \<in> set (skillsSchema q x) \<Longrightarrow> \<exists>r. fst i = q @ r"
  by (auto simp: skillsSchema_def dest!: string_issues_path enum_issues_path)

lemma projectSchema_prefix: "i \<in> set (projectSchema L q x) \<Longrightarrow> \<exists>r. fst i = q @ r"
  by (auto simp: projectSchema_def optional_issues_def split: option.splits
        dest!: string_issues_path)

lemma achievement_strict_issues_prefix:
  "i \<in> set (achievement_strict_issues q x) \<Longrightarrow> \<exists>r. fst i = q @ r"
  by (auto simp: achievement_strict_issues_def dest!: string_issues_path)

lemma issues_at_array_key:
  assumes "\<And>q x i. i \<in> set (f q x) \<Longrightarrow> \<exists>r. fst i = q @ r"
  shows "issues_at [Key k, Key k''] (array_issues f [Key k'] xs) = []"
proof (rule issues_at_none, rule ballI)
  fix i assume "i \<in> set (array_issues f [Key k'] xs)"
  from array_issues_prefix [of f, OF assms this] show "fst i \<noteq> [Key k, Key k'']" by auto
qed

text \<open>An issue of an array element lies strictly below the array's own path.\<close>

lemma array_issues_path:
  assumes "\<And>q x i. i \<in> set (f q x) \<Longrightarrow> length q \<le> length (fst i)"
    and "i \<in> set (array_issues f p xs)"
  shows "length p < length (fst i)"
proof -
  from assms(2) obtain n x where "i \<in> set (f (p @ [Idx n]) x)"
    by (auto simp: array_issues_def)
  from assms(1) [OF this] show ?thesis by simp
qed

lemma progLangSchema_path: "i \<in> set (progLangSchema q x) \<Longrightarrow> length q \<le> length (fst i)"
  by (auto simp: progLangSchema_def dest!: string_issues_path enum_issues_path)

lemma skillsSchema_path: "i \<in> set (skillsSchema q x) \<Longrightarrow> length q \<le> length (fst i)"
  by (auto simp: skillsSchema_def dest!: string_issues_path enum_issues_path)

lemma projectSchema_path: "i \<in> set (projectSchema L q x) \<Longrightarrow> length q \<le> length (fst i)"
  by (auto simp: projectSchema_def optional_issues_def split: option.splits
        dest!: string_issues_path)

lemma achievementSchema_path: "i \<in> set (achievementSchema q x) \<Longrightarrow> length q \<le> length (fst i)"
  by (auto simp: achievementSchema_def dest!: string_issues_path)

lemma achievement_strict_issues_path:
  "i \<in> set (achievement_strict_issues q x) \<Longrightarrow> length q \<le> length (fst i)"
  by (auto simp: achievement_strict_issues_def dest!: string_issues_path)

lemma issues_at_array:
  assumes "\<And>q x i. i \<in> set (f q x) \<Longrightarrow> length q \<le> length (fst i)"
  shows "issues_at [Key k] (array_issues f [Key k'] xs) = []"
proof (rule issues_at_none, rule ballI)
  fix i assume "i \<in> set (array_issues f [Key k'] xs)"
  from array_issues_path [of f, OF assms this] show "fst i \<noteq> [Key k]" by auto
qed

lemma issues_at_other:
  "p \<noteq> q \<Longrightarrow> issues_at q (string_issues cs p v) = []"
  "p \<noteq> q \<Longrightarrow> issues_at q (enum_issues vs p w) = []"
  "p \<noteq> q \<Longrightarrow> issues_at q (course_strict_issues p w) = []"
  "p \<noteq> q \<Longrightarrow> issues_at q (upper_refine_issues L r m p v) = []"
  by (auto intro!: issues_at_none dest: string_issues_path enum_issues_path
        course_strict_issues_path upper_refine_issues_path)

lemma issues_at_same:
  "issues_at p (string_issues cs p v) = string_issues cs p v"
  by (auto intro!: issues_at_all dest: string_issues_path)

text \<open>
  In the second variant, the issues that full-document validation reports at
  \<^verbatim>\<open>semester\<close> are those of the semester rule on the semester string.
\<close>

lemma semester_of_document:
  "issues_at [Key ''semester''] (FormSchema_strict_issues L d)
     = semester_strict_issues [Key ''semester''] (semester d)"
proof -
  have pic: "issues_at [Key ''semester'']
      (case profilePicture d of
         None \<Rightarrow> [([Key ''profilePicture''], Default invalid_type)]
       | Some obj \<Rightarrow> profilePictureSchema [Key ''profilePicture''] obj) = []"
    by (rule issues_at_none) (auto split: option.splits dest: profilePictureSchema_path)
  have sem: "issues_at [Key ''semester''] (semester_strict_issues [Key ''semester''] (semester d))
      = semester_strict_issues [Key ''semester''] (semester d)"
    unfolding semester_strict_issues_def by (rule issues_at_same)
  show ?thesis
    unfolding FormSchema_strict_issues_def issues_at_append pic sem
      enrollNo_strict_issues_def facultyNo_strict_issues_def
    by (simp add: issues_at_other
          issues_at_array [OF progLangSchema_path] issues_at_array [OF skillsSchema_path]
          issues_at_array [OF projectSchema_path] issues_at_array [OF achievement_strict_issues_path])
qed

lemma semester_MCA_II: "\<not> test semester_regex (str ''MCA: II'')"
  by code_simp

lemma semester_MCA_V: "\<not> test semester_regex (str ''MCA: V'')"
  by code_simp

lemma semester_MCA: "test semester_regex (str ''MCA'')"
  by code_simp

section \<open>The semester rule of the second variant\<close>

text \<open>
  Claim C1. With course \<^verbatim>\<open>MCA\<close>, the semester \<^verbatim>\<open>MCA: V\<close> is to fail semester
  validation and \<^verbatim>\<open>MCA: II\<close> is to pass. On the code both fail: full-document
  validation reports \<^verbatim>\<open>Invalid semester for the selected course\<close> at
  \<^verbatim>\<open>semester\<close> for \<^verbatim>\<open>MCA: II\<close> as for \<^verbatim>\<open>MCA: V\<close>, whatever the other fields
  hold, and the only semester the pattern accepts for MCA is the bare \<^verbatim>\<open>MCA\<close>.
\<close>

theorem semester_MCA_II_rejected:
  "issues_at [Key ''semester'']
     (FormSchema_strict_issues L (d\<lparr>course := Some (str ''MCA''), semester := str ''MCA: II''\<rparr>))
     = [([Key ''semester''], Message ''Invalid semester for the selected course'')]
 \<and> issues_at [Key ''semester'']
     (FormSchema_strict_issues L (d\<lparr>course := Some (str ''MCA''), semester := str ''MCA: V''\<rparr>))
     = [([Key ''semester''], Message ''Invalid semester for the selected course'')]
 \<and> issues_at [Key ''semester'']
     (FormSchema_strict_issues L (d\<lparr>course := Some (str ''MCA''), semester := str ''MCA''\<rparr>))
     = []"
  by (simp add: semester_of_document semester_strict_issues_def string_issues_simps
        semester_MCA_II semester_MCA_V semester_MCA str_nonempty)

text \<open>
  Claim C2, as amended. In the second variant the issues reported at
  \<^verbatim>\<open>semester\<close> are the same under every course selection: they are fixed by the
  semester string alone, through the pattern and the non-emptiness check.
\<close>

theorem semester_issues_ignore_course:
  "issues_at [Key ''semester''] (FormSchema_strict_issues L (d\<lparr>course := c1\<rparr>))
     = issues_at [Key ''semester''] (FormSchema_strict_issues L (d\<lparr>course := c2\<rparr>))
 \<and> issues_at [Key ''semester''] (FormSchema_strict_issues L d)
     = (if test semester_regex (semester d) then []
        else [([Key ''semester''], Message ''Invalid semester for the selected course'')])
       @ (if semester d \<noteq> [] then [] else [([Key ''semester''], Message ''Semester is Required'')])"
  by (simp add: semester_of_document semester_strict_issues_def string_issues_simps)

text \<open>
  The claim as stated asks for a semester string that passes under one course
  and fails under another. There is none.
\<close>

theorem semester_never_depends_on_course:
  "\<not> (\<exists>L (d :: FormData_strict) sem c1 c2.
        issues_at [Key ''semester'']
          (FormSchema_strict_issues L (d\<lparr>semester := sem, course := c1\<rparr>)) = []
      \<and> issues_at [Key ''semester'']
          (FormSchema_strict_issues L (d\<lparr>semester := sem, course := c2\<rparr>)) \<noteq> [])"
  by (simp add: semester_of_document)

section \<open>Enrollment and faculty numbers\<close>

text \<open>
  Claim C3, as amended. In the first variant the enrollment number is
  upper-cased and then matched: the rule yields the upper-cased input, which
  matches the pattern and is its own upper-casing, exactly when the upper-cased
  input matches, and the error \<^verbatim>\<open>Invalid Enrollment number\<close> otherwise; the same
  for the faculty number with its pattern and \<^verbatim>\<open>Invalid Faculty number\<close>. In the
  second variant the input is matched as entered: it passes unchanged exactly
  when it matches the pattern itself, and the named error is reported otherwise.
\<close>

theorem enrollNo_facultyNo_rules:
  "(case upper_refine L enrollNo_regex ''Invalid Enrollment number'' s of
      Inr v \<Rightarrow> v = toUpperCase (unicode_upper L) s \<and> test enrollNo_regex v
               \<and> toUpperCase (unicode_upper L) v = v
    | Inl e \<Rightarrow> e = Message ''Invalid Enrollment number''
               \<and> \<not> test enrollNo_regex (toUpperCase (unicode_upper L) s))
 \<and> (case upper_refine L facultyNo_regex ''Invalid Faculty number'' s of
      Inr v \<Rightarrow> v = toUpperCase (unicode_upper L) s \<and> test facultyNo_regex v
               \<and> toUpperCase (unicode_upper L) v = v
    | Inl e \<Rightarrow> e = Message ''Invalid Faculty number''
               \<and> \<not> test facultyNo_regex (toUpperCase (unicode_upper L) s))
 \<and> (if test enrollNo_regex s
     then enrollNo_strict_issues p s = [] \<and> toUpperCase (unicode_upper L) s = s
     else (p, Message ''Invalid Enrollment number'') \<in> set (enrollNo_strict_issues p s))
 \<and> (if test facultyNo_regex s
     then facultyNo_strict_issues p s = [] \<and> toUpperCase (unicode_upper L) s = s
     else (p, Message ''Invalid Faculty number'') \<in> set (facultyNo_strict_issues p s))"
proof -
  have e: "test enrollNo_regex s \<Longrightarrow> s \<noteq> []" by (auto simp: test_enrollNo_regex)
  have f: "test facultyNo_regex s \<Longrightarrow> s \<noteq> []" by (auto simp: test_facultyNo_regex)
  show ?thesis
    using e f
    by (simp add: upper_refine_def Let_def enrollNo_uppercase facultyNo_uppercase
          enrollNo_strict_issues_def facultyNo_strict_issues_def string_issues_simps)
qed

text \<open>
  The lower-case input \<^verbatim>\<open>ab1234\<close>: its upper-casing matches the pattern, the
  first variant accepts it as \<^verbatim>\<open>AB1234\<close>, and the second variant rejects it.
\<close>

theorem enrollNo_strict_rejects_lowercase:
  "test enrollNo_regex (toUpperCase (unicode_upper plain_lib) (str ''ab1234''))
   \<and> upper_refine plain_lib enrollNo_regex ''Invalid Enrollment number'' (str ''ab1234'')
       = Inr (str ''AB1234'')
   \<and> enrollNo_strict_issues [Key ''enrollNo''] (str ''ab1234'')
       = [([Key ''enrollNo''], Message ''Invalid Enrollment number'')]"
  by (simp add: enrollNo_strict_issues_def upper_refine_def string_issues_simps
        test_enrollNo_regex in_class_upper in_class_digit plain_lib_def
        toUpperCase_def toUppercase_cp_def str_def)


section \<open>Appending and removing rows\<close>

text \<open>
  Claim C4. For every sub-list, appending an entry and then removing at the
  index of the appended row, the former length, gives back the sub-list as it
  was; through a manager, the form's sequences are all as before.
\<close>

theorem append_then_removeAt:
  "removeAt (length rows) (append_row k e rows) = Inr rows
 \<and> useFieldArray_remove nm (length (st nm)) (useFieldArray_append nm k e st) = Inr st"
  by (simp add: removeAt_def append_row_def useFieldArray_remove_def useFieldArray_append_def)

text \<open>
  Claim C5. Removing at an index \<open>i\<close> below the length \<open>n\<close> succeeds and yields
  \<open>n - 1\<close> rows: the rows before \<open>i\<close> stay where they were, and each row
  formerly at \<open>j + 1\<close> with \<open>i \<le> j\<close> is now at \<open>j\<close>, key and entry unchanged.
\<close>

theorem removeAt_shifts_down:
  assumes "i < length rows"
  shows "\<exists>rows'. removeAt i rows = Inr rows'
     \<and> length rows' = length rows - 1
     \<and> (\<forall>j. j < i \<longrightarrow> rows' ! j = rows ! j)
     \<and> (\<forall>j. i \<le> j \<and> j < length rows - 1 \<longrightarrow> rows' ! j = rows ! Suc j)"
  using assms by (auto simp: removeAt_def nth_append min_def)

theorem removeAt_shifts_down_witness:
  "(1::nat) < length [(10::nat, ''a''), (11, ''b''), (12, ''c'')]
 \<and> (\<exists>rows'. removeAt 1 [(10::nat, ''a''), (11, ''b''), (12, ''c'')] = Inr rows'
       \<and> length rows' = 2 \<and> rows' ! 0 = (10, ''a'') \<and> rows' ! 1 = (12, ''c''))"
proof -
  have h: "(1::nat) < length [(10::nat, ''a''), (11, ''b''), (12, ''c'')]" by simp
  from removeAt_shifts_down [OF h] obtain rows' where
    r: "removeAt 1 [(10::nat, ''a''), (11, ''b''), (12, ''c'')] = Inr rows'"
      "length rows' = length [(10::nat, ''a''), (11, ''b''), (12, ''c'')] - 1"
      "\<forall>j. j < 1 \<longrightarrow> rows' ! j = [(10::nat, ''a''), (11, ''b''), (12, ''c'')] ! j"
      "\<forall>j. 1 \<le> j \<and> j < length [(10::nat, ''a''), (11, ''b''), (12, ''c'')] - 1
          \<longrightarrow> rows' ! j = [(10::nat, ''a''), (11, ''b''), (12, ''c'')] ! Suc j"
    by blast
  from r(3) have "rows' ! 0 = (10, ''a'')" by simp
  moreover from r(4) have "rows' ! 1 = (12, ''c'')" by simp
  ultimately show ?thesis using h r(1) r(2) by simp
qed

text \<open>
  In the first variant every manager is bound to its own sequence: appending or
  removing through one leaves the sequences under all other names as they were.
\<close>

lemma managers_of_first_variant:
  "nm \<noteq> ''progLangs'' \<Longrightarrow> appendLanguage k e st nm = st nm"
  "nm \<noteq> ''skills'' \<Longrightarrow> appendsSkill k e st nm = st nm"
  "nm \<noteq> ''projects'' \<Longrightarrow> appendProject k e st nm = st nm"
  "nm \<noteq> ''achievements'' \<Longrightarrow> appendAchievement k e st nm = st nm"
  "removeLanguage i st = Inr st' \<Longrightarrow> nm \<noteq> ''progLangs'' \<Longrightarrow> st' nm = st nm"
  "removeSkill i st = Inr st' \<Longrightarrow> nm \<noteq> ''skills'' \<Longrightarrow> st' nm = st nm"
  "removeProject i st = Inr st' \<Longrightarrow> nm \<noteq> ''projects'' \<Longrightarrow> st' nm = st nm"
  "removeAchievement i st = Inr st' \<Longrightarrow> nm \<noteq> ''achievements'' \<Longrightarrow> st' nm = st nm"
  by (auto simp: appendLanguage_def appendsSkill_def appendProject_def appendAchievement_def
        removeLanguage_def removeSkill_def removeProject_def removeAchievement_def
        useFieldArray_append_def useFieldArray_remove_def split: sum.splits)

text \<open>
  Claim C6. Every entity type is to have a manager on its own sequence, so that
  a change through one leaves the other three alone. In the second variant the
  skills manager is bound to \<^verbatim>\<open>progLangs\<close>: on the empty form, adding the default
  skill leaves \<^verbatim>\<open>skills\<close> empty and puts the row into \<^verbatim>\<open>progLangs\<close>.
\<close>

theorem appendsSkill_strict_writes_progLangs:
  "appendsSkill_strict (0::nat) default_skill (\<lambda>nm. []) ''skills'' = []
 \<and> appendsSkill_strict (0::nat) default_skill (\<lambda>nm. []) ''progLangs'' = [(0, default_skill)]"
  by (simp add: appendsSkill_strict_def useFieldArray_append_def append_row_def)

section \<open>Submitting the profile form\<close>





















section \<open>Submitting the login form\<close>

text \<open>
  Claim C8. The submit handler posts once, the values as body with credentials
  to the fixed address. On a response with a status from 200 to 299 it
  navigates to \<^verbatim>\<open>/\<close>; on any other status and on a network error it shows the
  alert \<^verbatim>\<open>Invalid credentials or something went wrong\<close> and does not navigate.
\<close>

theorem onSubmit_effects:
  "filter is_Post (onSubmit outcome data)
     = [Post ''http://localhost:3000/api/v1/users/login'' data True]
 \<and> (case outcome of
       Http_response status body \<Rightarrow>
         if 200 \<le> status \<and> status < 300
         then Navigate ''/'' \<in> set (onSubmit outcome data)
         else Alert ''Invalid credentials or something went wrong'' \<in> set (onSubmit outcome data)
              \<and> filter is_Navigate (onSubmit outcome data) = []
     | Network_error \<Rightarrow>
         Alert ''Invalid credentials or something went wrong'' \<in> set (onSubmit outcome data)
         \<and> filter is_Navigate (onSubmit outcome data) = [])"
  by (simp add: onSubmit_def axios_post_def validateStatus_def is_Post_def is_Navigate_def
        split: http_outcome.splits)

text \<open>
  Claim C10. The login field \<^verbatim>\<open>email\<close> passes exactly when its upper-casing
  matches the enrollment pattern, and the parsed value is the upper-cased one:
  when the password passes too, the values handed to the submit handler, and
  so the body of the request, carry the upper-cased \<^verbatim>\<open>email\<close>; otherwise the
  parse fails with the issues. An input with an \<^verbatim>\<open>@\<close> in it never passes: the
  error \<^verbatim>\<open>Invalid Enrollment number\<close> is shown at \<^verbatim>\<open>email\<close> and the submit has no
  effect at all, so no request is sent.
\<close>

theorem login_email_is_enrollment_pattern:
  "(issues_at [Key ''email''] (formSchema_issues L v) = []
      \<longleftrightarrow> test enrollNo_regex (toUpperCase (unicode_upper L) (login_email v)))
 \<and> (of_char CHR ''@'' \<in> set (login_email v) \<longrightarrow>
      issues_at [Key ''email''] (formSchema_issues L v)
        = [([Key ''email''], Message ''Invalid Enrollment number'')]
      \<and> fst (login_handleSubmit L outcome v) [Key ''email'']
          = Some (Message ''Invalid Enrollment number'')
      \<and> snd (login_handleSubmit L outcome v) = [])
 \<and> formSchema_parse L v
      = (if test enrollNo_regex (toUpperCase (unicode_upper L) (login_email v))
            \<and> 6 \<le> js_length (password v)
         then Inr (v\<lparr>login_email := toUpperCase (unicode_upper L) (login_email v)\<rparr>)
         else Inl (formSchema_issues L v))
 \<and> (test enrollNo_regex (toUpperCase (unicode_upper L) (login_email v))
      \<and> 6 \<le> js_length (password v) \<longrightarrow>
      login_handleSubmit L outcome v
        = (Map.empty,
           onSubmit outcome (v\<lparr>login_email := toUpperCase (unicode_upper L) (login_email v)\<rparr>))
      \<and> hd (onSubmit outcome (v\<lparr>login_email := toUpperCase (unicode_upper L) (login_email v)\<rparr>))
        = Post ''http://localhost:3000/api/v1/users/login''
            (v\<lparr>login_email := toUpperCase (unicode_upper L) (login_email v)\<rparr>) True)"
proof -
  have at: "issues_at [Key ''email''] (formSchema_issues L v)
      = upper_refine_issues L enrollNo_regex ''Invalid Enrollment number'' [Key ''email''] (login_email v)"
    unfolding formSchema_issues_def issues_at_append
    by (simp add: issues_at_other issues_at_all upper_refine_issues_path)
  have rej: "\<not> test enrollNo_regex (toUpperCase (unicode_upper L) (login_email v))"
    if "of_char CHR ''@'' \<in> set (login_email v)"
  proof
    assume t: "test enrollNo_regex (toUpperCase (unicode_upper L) (login_email v))"
    from that have "64 \<in> set (toUpperCase (unicode_upper L) (login_email v))"
      by (simp add: at_kept)
    with enrollNo_chars [OF t] show False by auto
  qed
  have one: "issues_at [Key ''email''] (formSchema_issues L v) = []
      \<longleftrightarrow> test enrollNo_regex (toUpperCase (unicode_upper L) (login_email v))"
    by (simp add: at upper_refine_issues_def upper_refine_def Let_def)
  have two: "issues_at [Key ''email''] (formSchema_issues L v)
        = [([Key ''email''], Message ''Invalid Enrollment number'')]
      \<and> fst (login_handleSubmit L outcome v) [Key ''email'']
          = Some (Message ''Invalid Enrollment number'')
      \<and> snd (login_handleSubmit L outcome v) = []"
    if "of_char CHR ''@'' \<in> set (login_email v)"
  proof -
    have "formSchema_issues L v = ([Key ''email''], Message ''Invalid Enrollment number'')
        # string_issues [zmin 6 (Message ''Password must be atleast of 6 characters'')]
            [Key ''password''] (password v)"
      using rej [OF that]
      by (simp add: formSchema_issues_def upper_refine_issues_def upper_refine_def Let_def)
    then have "fst (login_handleSubmit L outcome v) [Key ''email'']
          = Some (Message ''Invalid Enrollment number'')
      \<and> snd (login_handleSubmit L outcome v) = []"
      by (simp add: login_handleSubmit_def formSchema_parse_def)
    moreover have "issues_at [Key ''email''] (formSchema_issues L v)
        = [([Key ''email''], Message ''Invalid Enrollment number'')]"
      using rej [OF that] by (simp add: at upper_refine_issues_def upper_refine_def Let_def)
    ultimately show ?thesis by simp
  qed
  have empty: "formSchema_issues L v = []
      \<longleftrightarrow> test enrollNo_regex (toUpperCase (unicode_upper L) (login_email v))
          \<and> 6 \<le> js_length (password v)"
    by (simp add: formSchema_issues_def upper_refine_issues_def upper_refine_def Let_def
          string_issues_simps)
  have three: "formSchema_parse L v
      = (if test enrollNo_regex (toUpperCase (unicode_upper L) (login_email v))
            \<and> 6 \<le> js_length (password v)
         then Inr (v\<lparr>login_email := toUpperCase (unicode_upper L) (login_email v)\<rparr>)
         else Inl (formSchema_issues L v))"
    unfolding formSchema_parse_def empty by simp
  have four: "login_handleSubmit L outcome v
        = (Map.empty,
           onSubmit outcome (v\<lparr>login_email := toUpperCase (unicode_upper L) (login_email v)\<rparr>))
      \<and> hd (onSubmit outcome (v\<lparr>login_email := toUpperCase (unicode_upper L) (login_email v)\<rparr>))
        = Post ''http://localhost:3000/api/v1/users/login''
            (v\<lparr>login_email := toUpperCase (unicode_upper L) (login_email v)\<rparr>) True"
    if "test enrollNo_regex (toUpperCase (unicode_upper L) (login_email v))
      \<and> 6 \<le> js_length (password v)"
    using that by (simp add: login_handleSubmit_def three onSubmit_def)
  show ?thesis
  proof (intro conjI)
    show "issues_at [Key ''email''] (formSchema_issues L v) = []
      \<longleftrightarrow> test enrollNo_regex (toUpperCase (unicode_upper L) (login_email v))"
      by (rule one)
    show "of_char CHR ''@'' \<in> set (login_email v) \<longrightarrow>
      issues_at [Key ''email''] (formSchema_issues L v)
        = [([Key ''email''], Message ''Invalid Enrollment number'')]
      \<and> fst (login_handleSubmit L outcome v) [Key ''email'']
          = Some (Message ''Invalid Enrollment number'')
      \<and> snd (login_handleSubmit L outcome v) = []"
      using two by blast
    show "formSchema_parse L v
      = (if test enrollNo_regex (toUpperCase (unicode_upper L) (login_email v))
            \<and> 6 \<le> js_length (password v)
         then Inr (v\<lparr>login_email := toUpperCase (unicode_upper L) (login_email v)\<rparr>)
         else Inl (formSchema_issues L v))"
      by (rule three)
    show "test enrollNo_regex (toUpperCase (unicode_upper L) (login_email v))
      \<and> 6 \<le> js_length (password v) \<longrightarrow>
      login_handleSubmit L outcome v
        = (Map.empty,
           onSubmit outcome (v\<lparr>login_email := toUpperCase (unicode_upper L) (login_email v)\<rparr>))
      \<and> hd (onSubmit outcome (v\<lparr>login_email := toUpperCase (unicode_upper L) (login_email v)\<rparr>))
        = Post ''http://localhost:3000/api/v1/users/login''
            (v\<lparr>login_email := toUpperCase (unicode_upper L) (login_email v)\<rparr>) True"
      using four by blast
  qed
qed

lemma sample_login_lower_upper:
  "toUpperCase (unicode_upper plain_lib) (login_email sample_login_lower) = str ''AB1234''"
  by (simp add: sample_login_lower_def plain_lib_def toUpperCase_def toUppercase_cp_def str_def)

theorem login_email_is_enrollment_pattern_witness:
  "of_char CHR ''@'' \<in> set (login_email sample_login)
 \<and> issues_at [Key ''email''] (formSchema_issues plain_lib sample_login)
     = [([Key ''email''], Message ''Invalid Enrollment number'')]
 \<and> snd (login_handleSubmit plain_lib (Http_response 200 ()) sample_login) = []
 \<and> test enrollNo_regex (toUpperCase (unicode_upper plain_lib) (login_email sample_login_lower))
 \<and> 6 \<le> js_length (password sample_login_lower)
 \<and> formSchema_parse plain_lib sample_login_lower
     = Inr \<lparr>login_email = str ''AB1234'', password = str ''secret1''\<rparr>
 \<and> hd (snd (login_handleSubmit plain_lib (Http_response 200 ()) sample_login_lower))
     = Post ''http://localhost:3000/api/v1/users/login''
         \<lparr>login_email = str ''AB1234'', password = str ''secret1''\<rparr> True"
proof -
  have h: "of_char CHR ''@'' \<in> set (login_email sample_login)"
    by (simp add: sample_login_def str_def)
  have t: "test enrollNo_regex (toUpperCase (unicode_upper plain_lib) (login_email sample_login_lower))"
    unfolding sample_login_lower_upper
    by (simp add: test_enrollNo_regex in_class_upper in_class_digit str_def)
  have l: "6 \<le> js_length (password sample_login_lower)"
    by (simp add: sample_login_lower_def)
  have u: "sample_login_lower\<lparr>login_email := str ''AB1234''\<rparr>
      = \<lparr>login_email = str ''AB1234'', password = str ''secret1''\<rparr>"
    by (simp add: sample_login_lower_def)
  from h login_email_is_enrollment_pattern [of plain_lib sample_login "Http_response 200 ()"]
  have a: "issues_at [Key ''email''] (formSchema_issues plain_lib sample_login)
       = [([Key ''email''], Message ''Invalid Enrollment number'')]
     \<and> snd (login_handleSubmit plain_lib (Http_response 200 ()) sample_login) = []"
    by blast
  from t l login_email_is_enrollment_pattern [of plain_lib sample_login_lower "Http_response 200 ()"]
  have b: "formSchema_parse plain_lib sample_login_lower
       = Inr (sample_login_lower\<lparr>login_email := str ''AB1234''\<rparr>)
     \<and> hd (snd (login_handleSubmit plain_lib (Http_response 200 ()) sample_login_lower))
       = Post ''http://localhost:3000/api/v1/users/login''
           (sample_login_lower\<lparr>login_email := str ''AB1234''\<rparr>) True"
    by (simp add: sample_login_lower_upper)
  from h t l a b show ?thesis by (simp only: u)
qed

section \<open>The profile picture of the second variant\<close>

text \<open>
  On an object that has the key \<^verbatim>\<open>profilePicture\<close>, the schema tests the first
  file of the list: above 2MB the size error is reported; at most 2MB and of
  type \<^verbatim>\<open>image/jpeg\<close> or \<^verbatim>\<open>image/png\<close>, no issue is reported; of any other type,
  the type error is reported.
\<close>

lemma profilePictureSchema_on_object:
  "(maxSize < file_size f \<longrightarrow>
      (p @ [Key ''profilePicture''], Message ''File size must be less than 2MB.'')
        \<in> set (profilePictureSchema p (Picture_object (FileList (f # fs)))))
 \<and> (file_size f \<le> maxSize
      \<and> (file_type f = str ''image/jpeg'' \<or> file_type f = str ''image/png'') \<longrightarrow>
      profilePictureSchema p (Picture_object (FileList (f # fs))) = [])
 \<and> (file_type f \<noteq> str ''image/jpeg'' \<and> file_type f \<noteq> str ''image/png'' \<longrightarrow>
      (p @ [Key ''profilePicture''], Message ''Invalid file type. Only JPEG and PNG are allowed.'')
        \<in> set (profilePictureSchema p (Picture_object (FileList (f # fs)))))"
  by (simp add: profilePictureSchema_def picture_profilePicture_def Let_def fileFormat_def)

lemma profilePictureSchema_on_samples:
  "([Key ''profilePicture''], Message ''File size must be less than 2MB.'')
        \<in> set (profilePictureSchema [] (Picture_object (FileList [jpeg_3MB])))"
  "profilePictureSchema [] (Picture_object (FileList [png_1MB])) = []"
  "([Key ''profilePicture''], Message ''Invalid file type. Only JPEG and PNG are allowed.'')
        \<in> set (profilePictureSchema [] (Picture_object (FileList [gif_1MB])))"
  by (simp_all add: profilePictureSchema_def picture_profilePicture_def Let_def fileFormat_def
        maxSize_def jpeg_3MB_def png_1MB_def gif_1MB_def str_def)

text \<open>
  In the document, the issues under \<^verbatim>\<open>profilePicture.profilePicture\<close> are those of
  the picture schema on the value that the form holds under \<^verbatim>\<open>profilePicture\<close>.
\<close>

lemma picture_of_document:
  "issues_at [Key ''profilePicture'', Key ''profilePicture''] (FormSchema_strict_issues L d)
     = (case profilePicture d of
          None \<Rightarrow> []
        | Some obj \<Rightarrow> profilePictureSchema [Key ''profilePicture''] obj)"
proof -
  have pic: "issues_at [Key ''profilePicture'', Key ''profilePicture'']
      (case profilePicture d of
         None \<Rightarrow> [([Key ''profilePicture''], Default invalid_type)]
       | Some obj \<Rightarrow> profilePictureSchema [Key ''profilePicture''] obj)
      = (case profilePicture d of
          None \<Rightarrow> []
        | Some obj \<Rightarrow> profilePictureSchema [Key ''profilePicture''] obj)"
  proof (cases "profilePicture d")
    case None
    then show ?thesis by (simp add: issues_at_def)
  next
    case (Some obj)
    have "issues_at [Key ''profilePicture'', Key ''profilePicture'']
        (profilePictureSchema [Key ''profilePicture''] obj)
        = profilePictureSchema [Key ''profilePicture''] obj"
      by (rule issues_at_all) (auto dest: profilePictureSchema_path)
    with Some show ?thesis by simp
  qed
  show ?thesis
    unfolding FormSchema_strict_issues_def issues_at_append pic
      enrollNo_strict_issues_def facultyNo_strict_issues_def semester_strict_issues_def
    by (simp add: issues_at_other
          issues_at_array_key [OF progLangSchema_prefix] issues_at_array_key [OF skillsSchema_prefix]
          issues_at_array_key [OF projectSchema_prefix]
          issues_at_array_key [OF achievement_strict_issues_prefix])
qed

text \<open>
  Claim C9. A file above 2MB is to be rejected with the size error, a JPEG or
  PNG of at most 2MB accepted, and a file of another type rejected with the
  type error. On the code the form schema puts the picture schema under the key
  \<^verbatim>\<open>profilePicture\<close> (line 88), and the picture schema looks for the files under
  its own key \<^verbatim>\<open>profilePicture\<close> again, while the file input stores the
  \<^verbatim>\<open>FileList\<close> itself. So whatever files are chosen, the 1MB PNG included,
  full-document validation reports \<^verbatim>\<open>Please upload a file.\<close> and nothing else at
  \<^verbatim>\<open>profilePicture.profilePicture\<close>: the size rule and the type rule are never
  reached, and the document does not pass.
\<close>

theorem chosen_picture_is_rejected:
  "issues_at [Key ''profilePicture'', Key ''profilePicture'']
     (FormSchema_strict_issues L (profilePicture_onChange files d))
     = [([Key ''profilePicture'', Key ''profilePicture''], Message ''Please upload a file.'')]
 \<and> issues_at [Key ''profilePicture'', Key ''profilePicture'']
     (FormSchema_strict_issues L (profilePicture_onChange [png_1MB] d))
     = [([Key ''profilePicture'', Key ''profilePicture''], Message ''Please upload a file.'')]
 \<and> FormSchema_strict_issues L (profilePicture_onChange [png_1MB] d) \<noteq> []
 \<and> issues_at [Key ''profilePicture'', Key ''profilePicture'']
     (FormSchema_strict_issues L (profilePicture_onChange [jpeg_3MB] d))
     = [([Key ''profilePicture'', Key ''profilePicture''], Message ''Please upload a file.'')]"
proof -
  have a: "issues_at [Key ''profilePicture'', Key ''profilePicture'']
     (FormSchema_strict_issues L (profilePicture_onChange fl d))
     = [([Key ''profilePicture'', Key ''profilePicture''], Message ''Please upload a file.'')]" for fl
    by (simp add: picture_of_document profilePicture_onChange_def profilePictureSchema_def
          picture_profilePicture_def)
  have "FormSchema_strict_issues L (profilePicture_onChange [png_1MB] d) \<noteq> []"
  proof
    assume "FormSchema_strict_issues L (profilePicture_onChange [png_1MB] d) = []"
    with a [of "[png_1MB]"] show False by simp
  qed
  with a show ?thesis by simp
qed

end
